theory Spec2Isabelle
  imports Complex_Main
begin

section \<open>Python values and failures\<close>

text \<open>
  The exceptions the modelled code can raise are values: a function that may raise returns
  \<open>pyerror + 'a\<close>, with \<open>Inl\<close> for the exception.
\<close>

datatype pyerror =
    KeyError | IndexError | TypeError | ExternalError
  | InvalidParameterSpecError | InvalidRangeError | ExhaustedError

text \<open>The values found in a preprocessing-parameters dictionary.\<close>

datatype pyval = PInt int | PStr string | PBool bool | PNone

text \<open>\<open>d[k]\<close> on a dictionary raises KeyError when the key is absent.\<close>

definition getitem :: "('k \<rightharpoonup> 'v) \<Rightarrow> 'k \<Rightarrow> pyerror + 'v" where
  "getitem d k = (case d k of None \<Rightarrow> Inl KeyError | Some v \<Rightarrow> Inr v)"

text \<open>Sequencing of computations that may raise: the first exception wins.\<close>

definition bind :: "pyerror + 'a \<Rightarrow> ('a \<Rightarrow> pyerror + 'b) \<Rightarrow> pyerror + 'b" where
  "bind m f = (case m of Inl e \<Rightarrow> Inl e | Inr v \<Rightarrow> f v)"

text \<open>
  The integer a Python number stands for in a comparison (\<open>bool\<close> is a subclass of
  \<open>int\<close>); strings and \<open>None\<close> do not compare with integers.
\<close>

fun py_num :: "pyval \<Rightarrow> int option" where
  "py_num (PInt i) = Some i"
| "py_num (PBool b) = Some (if b then 1 else 0)"
| "py_num (PStr s) = None"
| "py_num PNone = None"

text \<open>
  \<open>min(a, b)\<close> with \<open>b\<close> an integer: the first argument is returned unless the second is
  strictly smaller; comparing a string or \<open>None\<close> with an integer raises TypeError.
\<close>

definition py_min :: "pyval \<Rightarrow> int \<Rightarrow> pyerror + pyval" where
  "py_min a b = (case py_num a of
       None \<Rightarrow> Inl TypeError
     | Some x \<Rightarrow> Inr (if b < x then PInt b else a))"

text \<open>
  \<open>xs[i]\<close> on a list: a negative index counts from the end, and an index outside
  \<open>-len(xs) .. len(xs) - 1\<close> raises IndexError.
\<close>

definition py_index :: "'a list \<Rightarrow> int \<Rightarrow> pyerror + 'a" where
  "py_index xs i =
     (if 0 \<le> i \<and> i < int (length xs) then Inr (xs ! nat i)
      else if i < 0 \<and> - int (length xs) \<le> i then Inr (xs ! nat (int (length xs) + i))
      else Inl IndexError)"

text \<open>A list comprehension whose element expression may raise.\<close>

fun traverse :: "('a \<Rightarrow> pyerror + 'b) \<Rightarrow> 'a list \<Rightarrow> pyerror + 'b list" where
  "traverse f [] = Inr []"
| "traverse f (x # xs) =
     (case f x of
        Inl e \<Rightarrow> Inl e
      | Inr y \<Rightarrow> (case traverse f xs of Inl e \<Rightarrow> Inl e | Inr ys \<Rightarrow> Inr (y # ys)))"

section \<open>Text features (ludwig/features/text\_feature.py)\<close>

subsection \<open>TextFeatureMixin.feature\_meta and get\_feature\_meta\<close>

text \<open>
  What \<open>create_vocabulary\<close> (ludwig.utils.strings\_utils, not part of the sources at hand)
  returns: the vocabulary, its inverse, the frequencies and the length of the longest
  tokenized line.
\<close>

record vocabulary =
  idx2str :: "string list"
  str2idx :: "string \<rightharpoonup> int"
  str2freq :: "string \<rightharpoonup> int"
  max_len :: int

text \<open>
  \<open>create_vocabulary\<close> is a parameter of the model. Its arguments are, in this order: the
  column, \<open>tokenizer_type\<close>, \<open>num_most_frequent\<close>, \<open>lowercase\<close>, \<open>vocab_file\<close>
  (\<open>None\<close> when the caller does not pass it), \<open>unknown_symbol\<close> and \<open>padding_symbol\<close>.
\<close>

type_synonym create_vocabulary =
  "string list \<Rightarrow> pyval \<Rightarrow> pyval \<Rightarrow> pyval \<Rightarrow> pyval option \<Rightarrow> pyval \<Rightarrow> pyval
     \<Rightarrow> pyerror + vocabulary"

definition feature_meta ::
  "create_vocabulary \<Rightarrow> string list \<Rightarrow> (string \<rightharpoonup> pyval) \<Rightarrow> pyerror + (vocabulary \<times> vocabulary)" where
  "feature_meta cv column preprocessing_parameters =
     bind (getitem preprocessing_parameters ''char_most_common'') (\<lambda>char_most_common.
     bind (getitem preprocessing_parameters ''lowercase'') (\<lambda>lowercase.
     bind (getitem preprocessing_parameters ''unknown_symbol'') (\<lambda>unknown_symbol.
     bind (getitem preprocessing_parameters ''padding_symbol'') (\<lambda>padding_symbol.
     bind (cv column (PStr ''characters'') char_most_common lowercase None
             unknown_symbol padding_symbol) (\<lambda>char_vocab.
     bind (getitem preprocessing_parameters ''word_tokenizer'') (\<lambda>word_tokenizer.
     bind (getitem preprocessing_parameters ''word_most_common'') (\<lambda>word_most_common.
     bind (getitem preprocessing_parameters ''lowercase'') (\<lambda>lowercase'.
     bind (getitem preprocessing_parameters ''word_vocab_file'') (\<lambda>word_vocab_file.
     bind (getitem preprocessing_parameters ''unknown_symbol'') (\<lambda>unknown_symbol'.
     bind (getitem preprocessing_parameters ''padding_symbol'') (\<lambda>padding_symbol'.
     bind (cv column word_tokenizer word_most_common lowercase' (Some word_vocab_file)
             unknown_symbol' padding_symbol') (\<lambda>word_vocab.
     Inr (char_vocab, word_vocab)))))))))))))"

text \<open>The dictionary \<open>get_feature_meta\<close> returns, one field for each of its keys.\<close>

record feature_metadata =
  char_idx2str :: "string list"
  char_str2idx :: "string \<rightharpoonup> int"
  char_str2freq :: "string \<rightharpoonup> int"
  char_vocab_size :: int
  char_max_sequence_length :: pyval
  word_idx2str :: "string list"
  word_str2idx :: "string \<rightharpoonup> int"
  word_str2freq :: "string \<rightharpoonup> int"
  word_vocab_size :: int
  word_max_sequence_length :: pyval

definition get_feature_meta ::
  "create_vocabulary \<Rightarrow> string list \<Rightarrow> (string \<rightharpoonup> pyval) \<Rightarrow> pyerror + feature_metadata" where
  "get_feature_meta cv column preprocessing_parameters =
     bind (feature_meta cv column preprocessing_parameters) (\<lambda>(char_vocab, word_vocab).
     bind (getitem preprocessing_parameters ''char_sequence_length_limit'') (\<lambda>char_limit.
     bind (py_min char_limit (max_len char_vocab)) (\<lambda>char_max_len.
     bind (getitem preprocessing_parameters ''word_sequence_length_limit'') (\<lambda>word_limit.
     bind (py_min word_limit (max_len word_vocab)) (\<lambda>word_max_len.
     Inr \<lparr> char_idx2str = idx2str char_vocab,
           char_str2idx = str2idx char_vocab,
           char_str2freq = str2freq char_vocab,
           char_vocab_size = int (length (idx2str char_vocab)),
           char_max_sequence_length = char_max_len,
           word_idx2str = idx2str word_vocab,
           word_str2idx = str2idx word_vocab,
           word_str2freq = str2freq word_vocab,
           word_vocab_size = int (length (idx2str word_vocab)),
           word_max_sequence_length = word_max_len \<rparr>)))))"

text \<open>
  \<open>TextFeatureMixin.preprocessing_defaults\<close>. The three constants it takes from other
  modules (\<open>PADDING_SYMBOL\<close>, \<open>UNKNOWN_SYMBOL\<close>, \<open>FILL_WITH_CONST\<close>) are parameters.
\<close>

definition preprocessing_defaults :: "string \<Rightarrow> string \<Rightarrow> string \<Rightarrow> (string \<rightharpoonup> pyval)" where
  "preprocessing_defaults PADDING_SYMBOL UNKNOWN_SYMBOL FILL_WITH_CONST = map_of
     [(''char_tokenizer'', PStr ''characters''),
      (''char_vocab_file'', PNone),
      (''char_sequence_length_limit'', PInt 1024),
      (''char_most_common'', PInt 70),
      (''word_tokenizer'', PStr ''space_punct''),
      (''word_vocab_file'', PNone),
      (''word_sequence_length_limit'', PInt 256),
      (''word_most_common'', PInt 20000),
      (''padding_symbol'', PStr PADDING_SYMBOL),
      (''unknown_symbol'', PStr UNKNOWN_SYMBOL),
      (''padding'', PStr ''right''),
      (''lowercase'', PBool True),
      (''missing_value_strategy'', PStr FILL_WITH_CONST),
      (''fill_value'', PStr UNKNOWN_SYMBOL)]"

text \<open>
  A stand-in for \<open>create_vocabulary\<close> used to run the model: the vocabulary is the list of
  distinct lines and the longest line has \<open>n\<close> tokens.
\<close>

definition const_vocabulary :: "int \<Rightarrow> create_vocabulary" where
  "const_vocabulary n column tokenizer_type num_most_frequent lowercase vocab_file
       unknown_symbol padding_symbol =
     Inr \<lparr> idx2str = remdups column, str2idx = Map.empty, str2freq = Map.empty, max_len = n \<rparr>"

subsection \<open>TextOutputFeature.postprocess\_predictions\<close>

text \<open>
  The conditional expression of both comprehensions:
  \<open>metadata[level_idx2str][token] if token < len(metadata[level_idx2str]) else UNKNOWN_SYMBOL\<close>.
  The token is a Python integer and the lookup is Python's list indexing.
\<close>

definition token_to_str :: "string \<Rightarrow> string list \<Rightarrow> int \<Rightarrow> pyerror + string" where
  "token_to_str UNKNOWN_SYMBOL vocab token =
     (if token < int (length vocab) then py_index vocab token else Inr UNKNOWN_SYMBOL)"

text \<open>
  An entry of \<open>postprocessed\<close> holds strings when the vocabulary is in the metadata and the
  predictions as they came otherwise.
\<close>

datatype ('s, 'r) processed = Decoded 's | Unprocessed 'r

text \<open>
  The \<open>predictions\<close> dictionary, one field for each key the function reads; \<open>None\<close> is an
  absent key. The probabilities (\<open>'p\<close>) and the lengths (\<open>'l\<close>) are numpy data the function
  only hands on.
\<close>

record ('p, 'l) predictions =
  PREDICTIONS :: "int list list option"
  LAST_PREDICTIONS :: "int list option"
  PROBABILITIES :: "'p option"
  LENGTHS :: "'l option"

text \<open>The dictionary \<open>postprocessed\<close> the function returns.\<close>

record 'q postprocessed =
  post_PREDICTIONS :: "(string list list, int list list) processed option"
  post_LAST_PREDICTIONS :: "(string list, int list) processed option"
  post_PROBABILITY :: "'q option"

text \<open>What \<open>np.save\<close> is asked to write: the unprocessed array, under the key of its entry.\<close>

datatype 'q unprocessed =
    SavePredictions "int list list"
  | SaveLastPredictions "int list"
  | SaveProbability 'q

text \<open>
  What the function takes from outside this file, as parameters of the model:
  \<^item> \<open>UNKNOWN_SYMBOL\<close> (ludwig.utils.strings\_utils);
  \<^item> \<open>is_on_master()\<close> (ludwig.globals);
  \<^item> \<open>np_save dir name array\<close>, which stands for
    \<open>np.save(os.path.join(experiment_dir_name, '{}_{}.npy').format(name, KEY), array)\<close>
    and may raise; what it writes to the file system is not part of the model;
  \<^item> \<open>probabilities_len\<close>, the \<open>len\<close> of the \<open>PROBABILITIES\<close> entry, which may raise;
  \<^item> \<open>reduce_probabilities\<close>, the floating-point reduction of lines 385 to 393
    (\<open>np.max\<close> and \<open>np.prod\<close> over lists, \<open>np.amax\<close> and \<open>np.prod\<close> over an array), which
    may raise.
\<close>

record ('p, 'q) externals =
  UNKNOWN_SYMBOL :: string
  is_on_master :: bool
  np_save :: "string \<Rightarrow> string \<Rightarrow> 'q unprocessed \<Rightarrow> pyerror + unit"
  probabilities_len :: "'p \<Rightarrow> pyerror + nat"
  reduce_probabilities :: "'p \<Rightarrow> pyerror + 'q"

text \<open>
  \<open>'{}_{}'.format(self.level, 'idx2str')\<close>.
\<close>

definition level_idx2str :: "string \<Rightarrow> string" where
  "level_idx2str level = level @ ''_'' @ ''idx2str''"

text \<open>
  Lines 337 to 341: off the master process the unprocessed output is never saved.
\<close>

definition skip_save :: "('p, 'q) externals \<Rightarrow> bool \<Rightarrow> bool" where
  "skip_save ext skip_save_unprocessed_output =
     (if is_on_master ext then skip_save_unprocessed_output else True)"

definition save_unprocessed ::
  "('p, 'q) externals \<Rightarrow> bool \<Rightarrow> string \<Rightarrow> string \<Rightarrow> 'q unprocessed \<Rightarrow> pyerror + unit" where
  "save_unprocessed ext skip experiment_dir_name name array =
     (if \<not> skip then np_save ext experiment_dir_name name array else Inr ())"

text \<open>
  The \<open>PREDICTIONS\<close> block (lines 343 to 359): nothing happens for an absent or empty
  entry; otherwise the entry is decoded, saved and deleted from \<open>predictions\<close>.
\<close>

definition postprocess_preds ::
  "('p, 'q) externals \<Rightarrow> string \<Rightarrow> string \<Rightarrow> (string \<rightharpoonup> string list) \<Rightarrow> string \<Rightarrow> bool
     \<Rightarrow> 'q postprocessed \<times> ('p, 'l) predictions
     \<Rightarrow> pyerror + ('q postprocessed \<times> ('p, 'l) predictions)" where
  "postprocess_preds ext level name metadata experiment_dir_name skip =
     (\<lambda>(postprocessed, predictions).
       case PREDICTIONS predictions of
         None \<Rightarrow> Inr (postprocessed, predictions)
       | Some preds \<Rightarrow>
           if length preds > 0 then
             bind (case metadata (level_idx2str level) of
                     Some vocab \<Rightarrow>
                       bind (traverse (traverse (token_to_str (UNKNOWN_SYMBOL ext) vocab)) preds)
                         (\<lambda>strs. Inr (Decoded strs))
                   | None \<Rightarrow> Inr (Unprocessed preds)) (\<lambda>entry.
             bind (save_unprocessed ext skip experiment_dir_name name (SavePredictions preds))
               (\<lambda>saved.
             Inr (postprocessed\<lparr>post_PREDICTIONS := Some entry\<rparr>,
                  predictions\<lparr>PREDICTIONS := None\<rparr>)))
           else Inr (postprocessed, predictions))"

text \<open>The \<open>LAST_PREDICTIONS\<close> block (lines 361 to 378).\<close>

definition postprocess_last_preds ::
  "('p, 'q) externals \<Rightarrow> string \<Rightarrow> string \<Rightarrow> (string \<rightharpoonup> string list) \<Rightarrow> string \<Rightarrow> bool
     \<Rightarrow> 'q postprocessed \<times> ('p, 'l) predictions
     \<Rightarrow> pyerror + ('q postprocessed \<times> ('p, 'l) predictions)" where
  "postprocess_last_preds ext level name metadata experiment_dir_name skip =
     (\<lambda>(postprocessed, predictions).
       case LAST_PREDICTIONS predictions of
         None \<Rightarrow> Inr (postprocessed, predictions)
       | Some last_preds \<Rightarrow>
           if length last_preds > 0 then
             bind (case metadata (level_idx2str level) of
                     Some vocab \<Rightarrow>
                       bind (traverse (token_to_str (UNKNOWN_SYMBOL ext) vocab) last_preds)
                         (\<lambda>strs. Inr (Decoded strs))
                   | None \<Rightarrow> Inr (Unprocessed last_preds)) (\<lambda>entry.
             bind (save_unprocessed ext skip experiment_dir_name name
                     (SaveLastPredictions last_preds)) (\<lambda>saved.
             Inr (postprocessed\<lparr>post_LAST_PREDICTIONS := Some entry\<rparr>,
                  predictions\<lparr>LAST_PREDICTIONS := None\<rparr>)))
           else Inr (postprocessed, predictions))"

text \<open>
  The \<open>PROBABILITIES\<close> block (lines 380 to 406): a non-empty entry is reduced to
  \<open>PROBABILITY\<close>, saved and deleted.
\<close>

definition postprocess_probs ::
  "('p, 'q) externals \<Rightarrow> string \<Rightarrow> string \<Rightarrow> bool
     \<Rightarrow> 'q postprocessed \<times> ('p, 'l) predictions
     \<Rightarrow> pyerror + ('q postprocessed \<times> ('p, 'l) predictions)" where
  "postprocess_probs ext name experiment_dir_name skip =
     (\<lambda>(postprocessed, predictions).
       case PROBABILITIES predictions of
         None \<Rightarrow> Inr (postprocessed, predictions)
       | Some probs \<Rightarrow>
           bind (probabilities_len ext probs) (\<lambda>n.
           if n > 0 then
             bind (reduce_probabilities ext probs) (\<lambda>prob.
             bind (save_unprocessed ext skip experiment_dir_name name (SaveProbability prob))
               (\<lambda>saved.
             Inr (postprocessed\<lparr>post_PROBABILITY := Some prob\<rparr>,
                  predictions\<lparr>PROBABILITIES := None\<rparr>)))
           else Inr (postprocessed, predictions)))"

text \<open>
  \<open>postprocess_predictions\<close> (lines 325 to 411): the three blocks in turn, then the
  deletion of \<open>LENGTHS\<close>. It returns \<open>postprocessed\<close>; the \<open>predictions\<close> dictionary, which
  it changes in place, is returned with it.
\<close>

definition postprocess_predictions ::
  "('p, 'q) externals \<Rightarrow> string \<Rightarrow> string \<Rightarrow> ('p, 'l) predictions \<Rightarrow> (string \<rightharpoonup> string list)
     \<Rightarrow> string \<Rightarrow> bool \<Rightarrow> pyerror + ('q postprocessed \<times> ('p, 'l) predictions)" where
  "postprocess_predictions ext level name predictions metadata experiment_dir_name
       skip_save_unprocessed_output =
     (let skip = skip_save ext skip_save_unprocessed_output;
          postprocessed = \<lparr> post_PREDICTIONS = None, post_LAST_PREDICTIONS = None,
                            post_PROBABILITY = None \<rparr>
      in
      bind (postprocess_preds ext level name metadata experiment_dir_name skip
              (postprocessed, predictions)) (\<lambda>state1.
      bind (postprocess_last_preds ext level name metadata experiment_dir_name skip state1)
        (\<lambda>state2.
      bind (postprocess_probs ext name experiment_dir_name skip state2)
        (\<lambda>(postprocessed', predictions').
      Inr (postprocessed', predictions'\<lparr>LENGTHS := None\<rparr>)))))"

text \<open>
  What the conditional expression gives for a class index, in the words of its guard:
  the vocabulary entry below the vocabulary length, the unknown symbol from it on.
\<close>

definition decode_token :: "string \<Rightarrow> string list \<Rightarrow> int \<Rightarrow> string" where
  "decode_token unknown vocab token =
     (if token < int (length vocab) then vocab ! nat token else unknown)"

text \<open>
  Externals to run the model with: on the master process, nothing raises, the
  probabilities are a list of numbers and their reduction is a stand-in.
\<close>

definition quiet_externals :: "(real list, real) externals" where
  "quiet_externals =
     \<lparr> UNKNOWN_SYMBOL = ''<UNK>'', is_on_master = True,
       np_save = (\<lambda>experiment_dir_name name array. Inr ()),
       probabilities_len = (\<lambda>probs. Inr (length probs)),
       reduce_probabilities = (\<lambda>probs. Inr (prod_list probs)) \<rparr>"

section \<open>Hyperparameter search strategies (ludwig/utils/hyperopt\_utils.py)\<close>

text \<open>
  The module ludwig/utils/hyperopt\_utils.py, which defines \<open>GridStrategy\<close>, is not among
  the sources; its test tests/ludwig/utils/test\_hyperopt\_utils.py is. The strategy is
  therefore modelled from the specification, and the test, which is source, is embedded as
  it is written. In one place the words of the specification and the assertions of the
  test disagree: the number of steps of an int parameter without \<open>steps\<close>, which the model
  leaves open as a parameter.

  Floating-point numbers are modelled as real numbers: the spacing of a sequence is exact,
  and the rounding of binary floating-point arithmetic is outside the model.
\<close>

subsection \<open>Parameter specifications\<close>

text \<open>
  Modelled from the spec: the two scales and the two goals it names, and a candidate value,
  which is a float, an int or a category value as the test's fixture has them.
\<close>

datatype scale = Linear | Log

datatype pvalue = VFloat real | VInt int | VStr string

datatype goal = Minimize | Maximize

text \<open>
  Modelled from the spec: the raw per-parameter specification, a dictionary with the keys
  \<open>type\<close>, \<open>low\<close>, \<open>high\<close>, \<open>steps\<close>, \<open>scale\<close> and \<open>values\<close>, as the test's
  fixture writes it. \<open>None\<close> is an absent key. A numeric bound is read as a real number
  (an integer bound is its real value).
\<close>

record raw_spec =
  ptype :: "string option"
  low :: "real option"
  high :: "real option"
  steps :: "nat option"
  scale :: "scale option"
  category_values :: "pvalue list option"

text \<open>
  Modelled from the spec: the ParameterSpec of the data model, after validation:
  \<open>{type \<in> {float, int, category}, low, high, steps?, scale \<in> {linear, log}, values?}\<close>.
\<close>

datatype ParameterSpec =
    FloatSpec real real "nat option" scale
  | IntSpec real real "nat option" scale
  | CategorySpec "pvalue list"

text \<open>
  Modelled from the spec: the ParameterSpec parser, which validates and normalizes a raw
  specification. It rejects with \<open>InvalidParameterSpecError\<close> a missing required field
  (\<open>type\<close>; \<open>low\<close> and \<open>high\<close> of a numeric type; \<open>values\<close> of a category), a type that is
  not recognized, inverted bounds, a non-positive lower bound with the log scale and an
  empty category list; it enforces the data model's invariant \<open>steps \<ge> 1\<close> likewise. An
  absent \<open>scale\<close> is linear (the test's int parameters carry none).
\<close>

definition parse_spec :: "raw_spec \<Rightarrow> pyerror + ParameterSpec" where
  "parse_spec r =
     (case ptype r of
        None \<Rightarrow> Inl InvalidParameterSpecError
      | Some t \<Rightarrow>
          if t = ''float'' \<or> t = ''int'' then
            (case (low r, high r) of
               (Some l, Some h) \<Rightarrow>
                 let sc = (case scale r of None \<Rightarrow> Linear | Some s \<Rightarrow> s) in
                 if h < l then Inl InvalidParameterSpecError
                 else if steps r = Some 0 then Inl InvalidParameterSpecError
                 else if sc = Log \<and> l \<le> 0 then Inl InvalidParameterSpecError
                 else if t = ''float'' then Inr (FloatSpec l h (steps r) sc)
                 else Inr (IntSpec l h (steps r) sc)
             | _ \<Rightarrow> Inl InvalidParameterSpecError)
          else if t = ''category'' then
            (case category_values r of
               None \<Rightarrow> Inl InvalidParameterSpecError
             | Some vs \<Rightarrow> if vs = [] then Inl InvalidParameterSpecError else Inr (CategorySpec vs))
          else Inl InvalidParameterSpecError)"

subsection \<open>SearchSpaceBuilder\<close>

text \<open>
  Modelled from the spec: \<open>steps\<close> evenly spaced values from \<open>low\<close> to \<open>high\<close> inclusive.
  A single step gives the lower bound alone.
\<close>

definition linspace :: "real \<Rightarrow> real \<Rightarrow> nat \<Rightarrow> real list" where
  "linspace lo hi n =
     (if n = 1 then [lo]
      else map (\<lambda>i. lo + real i * (hi - lo) / real (n - 1)) [0..<n])"

text \<open>
  Modelled from the spec: \<open>steps\<close> values evenly spaced in log-space between \<open>low\<close> and
  \<open>high\<close>: the logarithms of the values are evenly spaced between the logarithms of the
  bounds.
\<close>

definition logspace :: "real \<Rightarrow> real \<Rightarrow> nat \<Rightarrow> real list" where
  "logspace lo hi n = map exp (linspace (ln lo) (ln hi) n)"

text \<open>
  Modelled from the spec: the spacing by scale; the log scale requires \<open>low > 0\<close> and fails
  with \<open>InvalidRangeError\<close> otherwise.
\<close>

definition spaced :: "scale \<Rightarrow> real \<Rightarrow> real \<Rightarrow> nat \<Rightarrow> pyerror + real list" where
  "spaced sc lo hi n =
     (case sc of
        Linear \<Rightarrow> Inr (linspace lo hi n)
      | Log \<Rightarrow> if lo \<le> 0 then Inl InvalidRangeError else Inr (logspace lo hi n))"

text \<open>
  Modelled from the spec: the numeric rounding rule, to an integer. Of the two the
  specification allows, round-half-to-even is the one taken here.
\<close>

definition round_half_even :: "real \<Rightarrow> int" where
  "round_half_even x =
     (let f = \<lfloor>x\<rfloor>; d = x - of_int f in
      if d < 1 / 2 then f
      else if 1 / 2 < d then f + 1
      else if even f then f else f + 1)"

text \<open>
  Modelled from the spec: the candidate sequence of an int parameter for a given number of
  steps: the spacing of a float, rounded to integers, duplicates collapsed in ascending
  order.
\<close>

definition int_candidates :: "scale \<Rightarrow> real \<Rightarrow> real \<Rightarrow> nat \<Rightarrow> pyerror + pvalue list" where
  "int_candidates sc lo hi n =
     bind (spaced sc lo hi n) (\<lambda>xs. Inr (map VInt (remdups_adj (map round_half_even xs))))"

text \<open>
  Modelled from the spec: SearchSpaceBuilder, from one ParameterSpec to its ordered
  sequence of \<open>steps\<close> (or type-default) candidate values. The type-specific default of
  a parameter without \<open>steps\<close> is the parameter \<open>default_steps\<close> of the model: the
  specification names none for a float parameter, and the one it names for an int
  parameter, \<open>high - low + 1\<close>, is not the one the test's fixture expects.
\<close>

fun SearchSpaceBuilder :: "(ParameterSpec \<Rightarrow> nat) \<Rightarrow> ParameterSpec \<Rightarrow> pyerror + pvalue list" where
  "SearchSpaceBuilder default_steps (FloatSpec lo hi st sc) =
     bind (spaced sc lo hi
             (case st of None \<Rightarrow> default_steps (FloatSpec lo hi st sc) | Some n \<Rightarrow> n))
       (\<lambda>xs. Inr (map VFloat xs))"
| "SearchSpaceBuilder default_steps (IntSpec lo hi st sc) =
     int_candidates sc lo hi
       (case st of None \<Rightarrow> default_steps (IntSpec lo hi st sc) | Some n \<Rightarrow> n)"
| "SearchSpaceBuilder default_steps (CategorySpec vs) = Inr vs"


text \<open>
  A default to run the model with: two steps, that is, the two bounds.
\<close>

definition two_steps :: "ParameterSpec \<Rightarrow> nat" where
  "two_steps spec = 2"

subsection \<open>GridStrategy\<close>

text \<open>
  Modelled from the spec: the full Cartesian product of the per-parameter sequences, the
  first parameter varying slowest and the last fastest.
\<close>

fun cartesian_product :: "'a list list \<Rightarrow> 'a list list" where
  "cartesian_product [] = [[]]"
| "cartesian_product (xs # xss) =
     concat (map (\<lambda>x. map (\<lambda>combination. x # combination) (cartesian_product xss)) xs)"

text \<open>
  Modelled from the spec: the state of a GridStrategy: the search space (parameter name to
  candidate sequence, in the order of the input), the combinations and the cursor.
\<close>

record grid_strategy =
  grid_goal :: goal
  search_space :: "(string \<times> pvalue list) list"
  samples :: "pvalue list list"
  cursor :: nat

text \<open>
  Modelled from the spec: the validation of a parameter map, eager and complete: every
  specification is parsed before anything is built.
\<close>

definition parse_parameters ::
  "(string \<times> raw_spec) list \<Rightarrow> pyerror + (string \<times> ParameterSpec) list" where
  "parse_parameters parameters =
     traverse (\<lambda>(name, raw). bind (parse_spec raw) (\<lambda>spec. Inr (name, spec))) parameters"

text \<open>
  Modelled from the spec: the constructor of GridStrategy builds the search space with
  SearchSpaceBuilder and computes all the combinations.
\<close>

definition GridStrategy ::
  "(ParameterSpec \<Rightarrow> nat) \<Rightarrow> goal \<Rightarrow> (string \<times> raw_spec) list \<Rightarrow> pyerror + grid_strategy" where
  "GridStrategy default_steps g parameters =
     bind (parse_parameters parameters) (\<lambda>specs.
     bind (traverse (\<lambda>(name, spec).
             bind (SearchSpaceBuilder default_steps spec) (\<lambda>candidates.
             Inr (name, candidates))) specs) (\<lambda>space.
     Inr \<lparr> grid_goal = g, search_space = space,
           samples = cartesian_product (map snd space), cursor = 0 \<rparr>))"

text \<open>
  Modelled from the spec: \<open>GridStrategy.sample()\<close> returns the next combination as a
  mapping from parameter name to value and advances the cursor; it fails with
  \<open>ExhaustedError\<close> once the cursor has reached \<open>len(samples)\<close>. A failed call leaves the
  state as it is.
\<close>

definition grid_sample ::
  "grid_strategy \<Rightarrow> pyerror + ((string \<times> pvalue) list \<times> grid_strategy)" where
  "grid_sample s =
     (if cursor s \<ge> length (samples s) then Inl ExhaustedError
      else Inr (zip (map fst (search_space s)) (samples s ! cursor s),
                s\<lparr>cursor := cursor s + 1\<rparr>))"

subsection \<open>The test (tests/ludwig/utils/test\_hyperopt\_utils.py)\<close>

text \<open>An entry of \<open>HYPEROPT_PARAMS\<close>.\<close>

record hyperopt_test_params =
  params :: "(string \<times> raw_spec) list"
  expected_search_space :: "(string \<times> pvalue list) list"
  goal :: goal
  expected_len_grids :: nat
  num_samples :: nat

definition test_1 :: hyperopt_test_params where
  "test_1 =
     \<lparr> params =
         [(''training.learning_rate'',
             \<lparr> ptype = Some ''float'', low = Some 0.0001, high = Some 0.1, steps = Some 4,
               scale = Some Log, category_values = None \<rparr>),
          (''combiner.num_fc_layers'',
             \<lparr> ptype = Some ''int'', low = Some 0, high = Some 4, steps = None,
               scale = None, category_values = None \<rparr>),
          (''utterance.cell_type'',
             \<lparr> ptype = Some ''category'', low = None, high = None, steps = None,
               scale = None, category_values = Some [VStr ''rnn'', VStr ''gru'', VStr ''lstm''] \<rparr>)],
       expected_search_space =
         [(''training.learning_rate'', [VFloat 0.0001, VFloat 0.001, VFloat 0.01, VFloat 0.1]),
          (''combiner.num_fc_layers'', [VInt 0, VInt 4]),
          (''utterance.cell_type'', [VStr ''rnn'', VStr ''gru'', VStr ''lstm''])],
       goal = Minimize,
       expected_len_grids = 24,
       num_samples = 10 \<rparr>"

definition test_2 :: hyperopt_test_params where
  "test_2 =
     \<lparr> params =
         [(''training.learning_rate'',
             \<lparr> ptype = Some ''float'', low = Some 0.001, high = Some 0.1, steps = Some 4,
               scale = Some Linear, category_values = None \<rparr>),
          (''combiner.num_fc_layers'',
             \<lparr> ptype = Some ''int'', low = Some 2, high = Some 6, steps = Some 3,
               scale = None, category_values = None \<rparr>)],
       expected_search_space =
         [(''training.learning_rate'', [VFloat 0.001, VFloat 0.034, VFloat 0.067, VFloat 0.1]),
          (''combiner.num_fc_layers'', [VInt 2, VInt 4, VInt 6])],
       goal = Maximize,
       expected_len_grids = 12,
       num_samples = 5 \<rparr>"

text \<open>
  \<open>test_grid_strategy\<close>: the three assertions, on a strategy that was constructed and
  sampled once. Two dictionaries are equal when they hold the same items, and two key
  views when they hold the same keys. The test fails when the construction or the call
  raises.
\<close>

definition test_grid_strategy :: "(ParameterSpec \<Rightarrow> nat) \<Rightarrow> hyperopt_test_params \<Rightarrow> bool" where
  "test_grid_strategy default_steps t =
     (case GridStrategy default_steps (goal t) (params t) of
        Inl e \<Rightarrow> False
      | Inr s \<Rightarrow>
          (case grid_sample s of
             Inl e \<Rightarrow> False
           | Inr (x, s') \<Rightarrow>
               set (map fst x) = set (map fst (search_space s'))
               \<and> set (search_space s') = set (expected_search_space t)
               \<and> length (samples s') = expected_len_grids t))"

section \<open>Properties of the text features\<close>

subsection \<open>Auxiliary facts\<close>

lemma bind_Inr_iff: "bind m f = Inr y \<longleftrightarrow> (\<exists>v. m = Inr v \<and> f v = Inr y)"
  by (cases m) (simp_all add: bind_def)

lemma getitem_Inr_iff: "getitem d k = Inr v \<longleftrightarrow> d k = Some v"
  by (simp add: getitem_def split: option.splits)

lemma py_min_Inr:
  assumes "py_min a b = Inr r"
  shows "\<exists>x. py_num a = Some x \<and> py_num r = Some (min x b)"
proof (cases "py_num a")
  case None
  with assms show ?thesis by (simp add: py_min_def)
next
  case (Some x)
  with assms have "r = (if b < x then PInt b else a)" by (simp add: py_min_def)
  with Some show ?thesis by (simp add: min_def)
qed

subsection \<open>Sequence length limits\<close>

text \<open>
  C9. Whenever \<open>get_feature_meta\<close> returns, the configured limits
  \<open>char_sequence_length_limit\<close> and \<open>word_sequence_length_limit\<close> are numbers, and the
  returned \<open>char_max_sequence_length\<close> and \<open>word_max_sequence_length\<close> are the minimum of
  the respective limit and of the maximum length \<open>create_vocabulary\<close> observed; so neither
  exceeds its limit. This holds for every column, every parameter dictionary and every
  behaviour of \<open>create_vocabulary\<close>.
\<close>

theorem get_feature_meta_within_limits:
  assumes "get_feature_meta cv column pp = Inr m"
  shows "\<exists>char_vocab word_vocab char_limit word_limit cl wl c w.
      feature_meta cv column pp = Inr (char_vocab, word_vocab) \<and>
      pp ''char_sequence_length_limit'' = Some char_limit \<and> py_num char_limit = Some cl \<and>
      pp ''word_sequence_length_limit'' = Some word_limit \<and> py_num word_limit = Some wl \<and>
      py_num (char_max_sequence_length m) = Some c \<and>
      c = min cl (max_len char_vocab) \<and> c \<le> cl \<and>
      py_num (word_max_sequence_length m) = Some w \<and>
      w = min wl (max_len word_vocab) \<and> w \<le> wl"
proof -
  from assms obtain char_vocab word_vocab char_limit word_limit cm wm where
    fm: "feature_meta cv column pp = Inr (char_vocab, word_vocab)" and
    cl: "pp ''char_sequence_length_limit'' = Some char_limit" and
    cm: "py_min char_limit (max_len char_vocab) = Inr cm" and
    wl: "pp ''word_sequence_length_limit'' = Some word_limit" and
    wm: "py_min word_limit (max_len word_vocab) = Inr wm" and
    m: "char_max_sequence_length m = cm" "word_max_sequence_length m = wm"
    unfolding get_feature_meta_def
    by (auto simp: bind_Inr_iff getitem_Inr_iff)
  from py_min_Inr [OF cm] obtain x where
    x: "py_num char_limit = Some x" "py_num cm = Some (min x (max_len char_vocab))"
    by blast
  from py_min_Inr [OF wm] obtain y where
    y: "py_num word_limit = Some y" "py_num wm = Some (min y (max_len word_vocab))"
    by blast
  show ?thesis
    using fm cl wl x y m by simp
qed

text \<open>
  The default parameters on a two-line column whose longest line has 300 tokens: the
  character limit 1024 lets 300 through, the word limit 256 cuts it.
\<close>

theorem get_feature_meta_within_limits_witness:
  "\<exists>m. get_feature_meta (const_vocabulary 300) [''hello world'', ''hi'']
          (preprocessing_defaults ''<PAD>'' ''<UNK>'' ''fill_with_const'') = Inr m
      \<and> char_max_sequence_length m = PInt 300
      \<and> word_max_sequence_length m = PInt 256
      \<and> (\<exists>c w. py_num (char_max_sequence_length m) = Some c \<and> c \<le> 1024
            \<and> py_num (word_max_sequence_length m) = Some w \<and> w \<le> 256)"
proof -
  let ?pp = "preprocessing_defaults ''<PAD>'' ''<UNK>'' ''fill_with_const''"
  let ?m = "\<lparr> char_idx2str = [''hello world'', ''hi''], char_str2idx = Map.empty,
             char_str2freq = Map.empty, char_vocab_size = 2,
             char_max_sequence_length = PInt 300,
             word_idx2str = [''hello world'', ''hi''], word_str2idx = Map.empty,
             word_str2freq = Map.empty, word_vocab_size = 2,
             word_max_sequence_length = PInt 256 \<rparr>"
  have run: "get_feature_meta (const_vocabulary 300) [''hello world'', ''hi''] ?pp = Inr ?m"
    by (simp add: get_feature_meta_def feature_meta_def bind_def getitem_def
        preprocessing_defaults_def const_vocabulary_def py_min_def)
  have limits: "?pp ''char_sequence_length_limit'' = Some (PInt 1024)"
    "?pp ''word_sequence_length_limit'' = Some (PInt 256)"
    by (simp_all add: preprocessing_defaults_def)
  from get_feature_meta_within_limits [OF run] limits
  have "\<exists>c w. py_num (char_max_sequence_length ?m) = Some c \<and> c \<le> 1024
            \<and> py_num (word_max_sequence_length ?m) = Some w \<and> w \<le> 256"
    by auto
  with run show ?thesis by simp
qed

subsection \<open>Decoding predicted token indices\<close>

lemma bind_Inl_iff:
  "bind m f = Inl e \<longleftrightarrow> m = Inl e \<or> (\<exists>v. m = Inr v \<and> f v = Inl e)"
  by (cases m) (simp_all add: bind_def)

lemma traverse_total:
  "\<forall>x \<in> set xs. f x = Inr (g x) \<Longrightarrow> traverse f xs = Inr (map g xs)"
  by (induction xs) simp_all

lemma token_to_str_class_index:
  assumes "0 \<le> token"
  shows "token_to_str unknown vocab token = Inr (decode_token unknown vocab token)"
  using assms by (simp add: token_to_str_def py_index_def decode_token_def)

lemma decode_token_in_vocab:
  assumes "0 \<le> token"
  shows "decode_token unknown vocab token \<in> insert unknown (set vocab)"
proof (cases "token < int (length vocab)")
  case True
  with assms have "nat token < length vocab" by linarith
  then have "vocab ! nat token \<in> set vocab" by (rule nth_mem)
  with True show ?thesis by (simp add: decode_token_def)
next
  case False
  then show ?thesis by (simp add: decode_token_def)
qed

lemma save_unprocessed_Inl:
  "save_unprocessed ext skip dir name array = Inl e \<Longrightarrow> np_save ext dir name array = Inl e"
  by (simp add: save_unprocessed_def split: if_splits)

text \<open>The three blocks, one at a time: what each leaves behind, and how each can fail.\<close>

lemma postprocess_preds_Inr:
  assumes vocab: "metadata (level_idx2str level) = Some vocab"
    and preds: "\<forall>pred \<in> set (case PREDICTIONS pr of None \<Rightarrow> [] | Some ps \<Rightarrow> ps).
                  \<forall>token \<in> set pred. 0 \<le> token"
    and run: "postprocess_preds ext level name metadata dir skip (p0, pr) = Inr (p1, pr1)"
  shows "post_PREDICTIONS p1 =
           (case PREDICTIONS pr of
              None \<Rightarrow> post_PREDICTIONS p0
            | Some ps \<Rightarrow> if ps = [] then post_PREDICTIONS p0
                       else Some (Decoded (map (map (decode_token (UNKNOWN_SYMBOL ext) vocab)) ps)))"
    and "post_LAST_PREDICTIONS p1 = post_LAST_PREDICTIONS p0"
    and "post_PROBABILITY p1 = post_PROBABILITY p0"
    and "LAST_PREDICTIONS pr1 = LAST_PREDICTIONS pr"
    and "PROBABILITIES pr1 = PROBABILITIES pr"
proof -
  have "post_PREDICTIONS p1 =
           (case PREDICTIONS pr of
              None \<Rightarrow> post_PREDICTIONS p0
            | Some ps \<Rightarrow> if ps = [] then post_PREDICTIONS p0
                       else Some (Decoded (map (map (decode_token (UNKNOWN_SYMBOL ext) vocab)) ps)))
      \<and> post_LAST_PREDICTIONS p1 = post_LAST_PREDICTIONS p0
      \<and> post_PROBABILITY p1 = post_PROBABILITY p0
      \<and> LAST_PREDICTIONS pr1 = LAST_PREDICTIONS pr
      \<and> PROBABILITIES pr1 = PROBABILITIES pr"
  proof (cases "PREDICTIONS pr")
    case None
    with run show ?thesis by (simp add: postprocess_preds_def)
  next
    case (Some ps)
    show ?thesis
    proof (cases "ps = []")
      case True
      with Some run show ?thesis by (simp add: postprocess_preds_def)
    next
      case False
      from preds Some have "\<forall>pred \<in> set ps. \<forall>token \<in> set pred. 0 \<le> token" by simp
      then have "\<forall>pred \<in> set ps.
          traverse (token_to_str (UNKNOWN_SYMBOL ext) vocab) pred
            = Inr (map (decode_token (UNKNOWN_SYMBOL ext) vocab) pred)"
        by (simp add: traverse_total token_to_str_class_index)
      then have "traverse (traverse (token_to_str (UNKNOWN_SYMBOL ext) vocab)) ps =
          Inr (map (map (decode_token (UNKNOWN_SYMBOL ext) vocab)) ps)"
        by (rule traverse_total)
      with Some False vocab run show ?thesis
        by (auto simp: postprocess_preds_def bind_def split: sum.splits)
    qed
  qed
  then show "post_PREDICTIONS p1 =
           (case PREDICTIONS pr of
              None \<Rightarrow> post_PREDICTIONS p0
            | Some ps \<Rightarrow> if ps = [] then post_PREDICTIONS p0
                       else Some (Decoded (map (map (decode_token (UNKNOWN_SYMBOL ext) vocab)) ps)))"
    and "post_LAST_PREDICTIONS p1 = post_LAST_PREDICTIONS p0"
    and "post_PROBABILITY p1 = post_PROBABILITY p0"
    and "LAST_PREDICTIONS pr1 = LAST_PREDICTIONS pr"
    and "PROBABILITIES pr1 = PROBABILITIES pr"
    by simp_all
qed

lemma postprocess_preds_Inl:
  assumes vocab: "metadata (level_idx2str level) = Some vocab"
    and preds: "\<forall>pred \<in> set (case PREDICTIONS pr of None \<Rightarrow> [] | Some ps \<Rightarrow> ps).
                  \<forall>token \<in> set pred. 0 \<le> token"
    and run: "postprocess_preds ext level name metadata dir skip (p0, pr) = Inl e"
  shows "\<exists>array. np_save ext dir name array = Inl e"
proof (cases "PREDICTIONS pr")
  case None
  with run show ?thesis by (simp add: postprocess_preds_def)
next
  case (Some ps)
  show ?thesis
  proof (cases "ps = []")
    case True
    with Some run show ?thesis by (simp add: postprocess_preds_def)
  next
    case False
    from preds Some have "\<forall>pred \<in> set ps. \<forall>token \<in> set pred. 0 \<le> token" by simp
    then have "\<forall>pred \<in> set ps.
        traverse (token_to_str (UNKNOWN_SYMBOL ext) vocab) pred
          = Inr (map (decode_token (UNKNOWN_SYMBOL ext) vocab) pred)"
      by (simp add: traverse_total token_to_str_class_index)
    then have "traverse (traverse (token_to_str (UNKNOWN_SYMBOL ext) vocab)) ps =
        Inr (map (map (decode_token (UNKNOWN_SYMBOL ext) vocab)) ps)"
      by (rule traverse_total)
    with Some False vocab run
    have "save_unprocessed ext skip dir name (SavePredictions ps) = Inl e"
      by (auto simp: postprocess_preds_def bind_def split: sum.splits)
    then have "np_save ext dir name (SavePredictions ps) = Inl e"
      by (rule save_unprocessed_Inl)
    then show ?thesis by (rule exI)
  qed
qed

lemma postprocess_last_preds_Inr:
  assumes vocab: "metadata (level_idx2str level) = Some vocab"
    and last_preds: "\<forall>token \<in> set (case LAST_PREDICTIONS pr of None \<Rightarrow> [] | Some ls \<Rightarrow> ls).
                  0 \<le> token"
    and run: "postprocess_last_preds ext level name metadata dir skip (p0, pr) = Inr (p1, pr1)"
  shows "post_LAST_PREDICTIONS p1 =
           (case LAST_PREDICTIONS pr of
              None \<Rightarrow> post_LAST_PREDICTIONS p0
            | Some ls \<Rightarrow> if ls = [] then post_LAST_PREDICTIONS p0
                       else Some (Decoded (map (decode_token (UNKNOWN_SYMBOL ext) vocab) ls)))"
    and "post_PREDICTIONS p1 = post_PREDICTIONS p0"
    and "post_PROBABILITY p1 = post_PROBABILITY p0"
    and "PROBABILITIES pr1 = PROBABILITIES pr"
proof -
  have "post_LAST_PREDICTIONS p1 =
           (case LAST_PREDICTIONS pr of
              None \<Rightarrow> post_LAST_PREDICTIONS p0
            | Some ls \<Rightarrow> if ls = [] then post_LAST_PREDICTIONS p0
                       else Some (Decoded (map (decode_token (UNKNOWN_SYMBOL ext) vocab) ls)))
      \<and> post_PREDICTIONS p1 = post_PREDICTIONS p0
      \<and> post_PROBABILITY p1 = post_PROBABILITY p0
      \<and> PROBABILITIES pr1 = PROBABILITIES pr"
  proof (cases "LAST_PREDICTIONS pr")
    case None
    with run show ?thesis by (simp add: postprocess_last_preds_def)
  next
    case (Some ls)
    show ?thesis
    proof (cases "ls = []")
      case True
      with Some run show ?thesis by (simp add: postprocess_last_preds_def)
    next
      case False
      from last_preds Some have "\<forall>token \<in> set ls. 0 \<le> token" by simp
      then have "traverse (token_to_str (UNKNOWN_SYMBOL ext) vocab) ls =
          Inr (map (decode_token (UNKNOWN_SYMBOL ext) vocab) ls)"
        by (simp add: traverse_total token_to_str_class_index)
      with Some False vocab run show ?thesis
        by (auto simp: postprocess_last_preds_def bind_def split: sum.splits)
    qed
  qed
  then show "post_LAST_PREDICTIONS p1 =
           (case LAST_PREDICTIONS pr of
              None \<Rightarrow> post_LAST_PREDICTIONS p0
            | Some ls \<Rightarrow> if ls = [] then post_LAST_PREDICTIONS p0
                       else Some (Decoded (map (decode_token (UNKNOWN_SYMBOL ext) vocab) ls)))"
    and "post_PREDICTIONS p1 = post_PREDICTIONS p0"
    and "post_PROBABILITY p1 = post_PROBABILITY p0"
    and "PROBABILITIES pr1 = PROBABILITIES pr"
    by simp_all
qed

lemma postprocess_last_preds_Inl:
  assumes vocab: "metadata (level_idx2str level) = Some vocab"
    and last_preds: "\<forall>token \<in> set (case LAST_PREDICTIONS pr of None \<Rightarrow> [] | Some ls \<Rightarrow> ls).
                  0 \<le> token"
    and run: "postprocess_last_preds ext level name metadata dir skip (p0, pr) = Inl e"
  shows "\<exists>array. np_save ext dir name array = Inl e"
proof (cases "LAST_PREDICTIONS pr")
  case None
  with run show ?thesis by (simp add: postprocess_last_preds_def)
next
  case (Some ls)
  show ?thesis
  proof (cases "ls = []")
    case True
    with Some run show ?thesis by (simp add: postprocess_last_preds_def)
  next
    case False
    from last_preds Some have "\<forall>token \<in> set ls. 0 \<le> token" by simp
    then have "traverse (token_to_str (UNKNOWN_SYMBOL ext) vocab) ls =
        Inr (map (decode_token (UNKNOWN_SYMBOL ext) vocab) ls)"
      by (simp add: traverse_total token_to_str_class_index)
    with Some False vocab run
    have "save_unprocessed ext skip dir name (SaveLastPredictions ls) = Inl e"
      by (auto simp: postprocess_last_preds_def bind_def split: sum.splits)
    then have "np_save ext dir name (SaveLastPredictions ls) = Inl e"
      by (rule save_unprocessed_Inl)
    then show ?thesis by (rule exI)
  qed
qed

lemma postprocess_probs_Inr:
  assumes "postprocess_probs ext name dir skip (p0, pr) = Inr (p1, pr1)"
  shows "post_PREDICTIONS p1 = post_PREDICTIONS p0"
    and "post_LAST_PREDICTIONS p1 = post_LAST_PREDICTIONS p0"
  using assms
  by (auto simp: postprocess_probs_def bind_def split: option.splits sum.splits if_splits)

lemma postprocess_probs_Inl:
  assumes "postprocess_probs ext name dir skip (p0, pr) = Inl e"
  shows "(\<exists>array. np_save ext dir name array = Inl e)
       \<or> (\<exists>probs. probabilities_len ext probs = Inl e)
       \<or> (\<exists>probs. reduce_probabilities ext probs = Inl e)"
proof (cases "PROBABILITIES pr")
  case None
  with assms show ?thesis by (simp add: postprocess_probs_def)
next
  case (Some probs)
  show ?thesis
  proof (cases "probabilities_len ext probs")
    case (Inl e')
    with Some assms have "probabilities_len ext probs = Inl e"
      by (simp add: postprocess_probs_def bind_def)
    then show ?thesis by blast
  next
    case n: (Inr n)
    show ?thesis
    proof (cases "reduce_probabilities ext probs")
      case (Inl e')
      with Some n assms have "reduce_probabilities ext probs = Inl e"
        by (simp add: postprocess_probs_def bind_def split: if_splits)
      then show ?thesis by blast
    next
      case (Inr prob)
      with Some n assms
      have "save_unprocessed ext skip dir name (SaveProbability prob) = Inl e"
        by (simp add: postprocess_probs_def bind_def split: if_splits sum.splits)
      then have "np_save ext dir name (SaveProbability prob) = Inl e"
        by (rule save_unprocessed_Inl)
      then show ?thesis by blast
    qed
  qed
qed

text \<open>
  C10. Let the vocabulary \<open>idx2str\<close> of the level be in the metadata, and let the predicted
  token indices be class indices, that is, not negative. Then every index is mapped, and
  no lookup is out of bounds: an index below the vocabulary length gives the vocabulary
  entry at that index and an index from the vocabulary length on gives \<open>UNKNOWN_SYMBOL\<close>.
  Whenever \<open>postprocess_predictions\<close> returns, its \<open>PREDICTIONS\<close> and \<open>LAST_PREDICTIONS\<close>
  entries are the predictions mapped in this way (an absent or empty entry of
  \<open>predictions\<close> leaves none), so they hold only vocabulary strings or the unknown symbol.
  When it raises, the exception comes from \<open>np.save\<close> or from the reduction of the
  probabilities, never from a lookup in the vocabulary.
\<close>

theorem postprocess_predictions_decodes:
  assumes vocab: "metadata (level_idx2str level) = Some vocab"
    and preds: "\<forall>pred \<in> set (case PREDICTIONS predictions of None \<Rightarrow> [] | Some ps \<Rightarrow> ps).
                  \<forall>token \<in> set pred. 0 \<le> token"
    and last_preds:
      "\<forall>token \<in> set (case LAST_PREDICTIONS predictions of None \<Rightarrow> [] | Some ls \<Rightarrow> ls).
                  0 \<le> token"
  shows "(\<forall>token. 0 \<le> token \<longrightarrow>
            token_to_str (UNKNOWN_SYMBOL ext) vocab token =
              Inr (if token < int (length vocab) then vocab ! nat token else UNKNOWN_SYMBOL ext)
            \<and> (if token < int (length vocab) then vocab ! nat token else UNKNOWN_SYMBOL ext)
                 \<in> insert (UNKNOWN_SYMBOL ext) (set vocab))
       \<and> (\<forall>postprocessed predictions'.
            postprocess_predictions ext level name predictions metadata experiment_dir_name
                skip_save_unprocessed_output = Inr (postprocessed, predictions') \<longrightarrow>
            post_PREDICTIONS postprocessed =
              (case PREDICTIONS predictions of
                 None \<Rightarrow> None
               | Some ps \<Rightarrow> if ps = [] then None
                          else Some (Decoded
                                 (map (map (decode_token (UNKNOWN_SYMBOL ext) vocab)) ps)))
            \<and> post_LAST_PREDICTIONS postprocessed =
              (case LAST_PREDICTIONS predictions of
                 None \<Rightarrow> None
               | Some ls \<Rightarrow> if ls = [] then None
                          else Some (Decoded (map (decode_token (UNKNOWN_SYMBOL ext) vocab) ls))))
       \<and> (\<forall>e. postprocess_predictions ext level name predictions metadata experiment_dir_name
                skip_save_unprocessed_output = Inl e \<longrightarrow>
            (\<exists>array. np_save ext experiment_dir_name name array = Inl e)
            \<or> (\<exists>probs. probabilities_len ext probs = Inl e)
            \<or> (\<exists>probs. reduce_probabilities ext probs = Inl e))"
proof (intro conjI allI impI)
  fix token :: int
  assume t: "0 \<le> token"
  from token_to_str_class_index [OF t]
  show "token_to_str (UNKNOWN_SYMBOL ext) vocab token =
      Inr (if token < int (length vocab) then vocab ! nat token else UNKNOWN_SYMBOL ext)"
    by (simp add: decode_token_def)
  from decode_token_in_vocab [OF t]
  show "(if token < int (length vocab) then vocab ! nat token else UNKNOWN_SYMBOL ext)
      \<in> insert (UNKNOWN_SYMBOL ext) (set vocab)"
    by (simp only: decode_token_def)
next
  let ?skip = "skip_save ext skip_save_unprocessed_output"
  let ?p0 = "\<lparr> post_PREDICTIONS = None, post_LAST_PREDICTIONS = None,
                post_PROBABILITY = None \<rparr>"
  fix postprocessed predictions'
  assume "postprocess_predictions ext level name predictions metadata experiment_dir_name
      skip_save_unprocessed_output = Inr (postprocessed, predictions')"
  then obtain p1 pr1 p2 pr2 pr3 where
    b1: "postprocess_preds ext level name metadata experiment_dir_name ?skip (?p0, predictions)
           = Inr (p1, pr1)" and
    b2: "postprocess_last_preds ext level name metadata experiment_dir_name ?skip (p1, pr1)
           = Inr (p2, pr2)" and
    b3: "postprocess_probs ext name experiment_dir_name ?skip (p2, pr2)
           = Inr (postprocessed, pr3)"
    unfolding postprocess_predictions_def Let_def
    by (auto simp: bind_Inr_iff)
  note r1 = postprocess_preds_Inr [OF vocab preds b1]
  from last_preds r1(4)
  have l1: "\<forall>token \<in> set (case LAST_PREDICTIONS pr1 of None \<Rightarrow> [] | Some ls \<Rightarrow> ls). 0 \<le> token"
    by simp
  note r2 = postprocess_last_preds_Inr [OF vocab l1 b2]
  note r3 = postprocess_probs_Inr [OF b3]
  from r1(1) r2(2) r3(1)
  show "post_PREDICTIONS postprocessed =
      (case PREDICTIONS predictions of
         None \<Rightarrow> None
       | Some ps \<Rightarrow> if ps = [] then None
                  else Some (Decoded (map (map (decode_token (UNKNOWN_SYMBOL ext) vocab)) ps)))"
    by (simp split: option.splits)
  from r1(2,4) r2(1) r3(2)
  show "post_LAST_PREDICTIONS postprocessed =
      (case LAST_PREDICTIONS predictions of
         None \<Rightarrow> None
       | Some ls \<Rightarrow> if ls = [] then None
                  else Some (Decoded (map (decode_token (UNKNOWN_SYMBOL ext) vocab) ls)))"
    by (simp split: option.splits)
next
  let ?skip = "skip_save ext skip_save_unprocessed_output"
  let ?p0 = "\<lparr> post_PREDICTIONS = None, post_LAST_PREDICTIONS = None,
                post_PROBABILITY = None \<rparr>"
  fix e
  assume "postprocess_predictions ext level name predictions metadata experiment_dir_name
      skip_save_unprocessed_output = Inl e"
  then consider
      (first) "postprocess_preds ext level name metadata experiment_dir_name ?skip
                 (?p0, predictions) = Inl e"
    | (second) p1 pr1 where
        "postprocess_preds ext level name metadata experiment_dir_name ?skip (?p0, predictions)
           = Inr (p1, pr1)"
        "postprocess_last_preds ext level name metadata experiment_dir_name ?skip (p1, pr1)
           = Inl e"
    | (third) p1 pr1 p2 pr2 where
        "postprocess_preds ext level name metadata experiment_dir_name ?skip (?p0, predictions)
           = Inr (p1, pr1)"
        "postprocess_last_preds ext level name metadata experiment_dir_name ?skip (p1, pr1)
           = Inr (p2, pr2)"
        "postprocess_probs ext name experiment_dir_name ?skip (p2, pr2) = Inl e"
    unfolding postprocess_predictions_def Let_def
    by (auto simp: bind_Inl_iff bind_Inr_iff)
  then show "(\<exists>array. np_save ext experiment_dir_name name array = Inl e)
      \<or> (\<exists>probs. probabilities_len ext probs = Inl e)
      \<or> (\<exists>probs. reduce_probabilities ext probs = Inl e)"
  proof cases
    case first
    from postprocess_preds_Inl [OF vocab preds first] show ?thesis by blast
  next
    case second
    note r1 = postprocess_preds_Inr [OF vocab preds second(1)]
    from last_preds r1(4)
    have "\<forall>token \<in> set (case LAST_PREDICTIONS pr1 of None \<Rightarrow> [] | Some ls \<Rightarrow> ls). 0 \<le> token"
      by simp
    from postprocess_last_preds_Inl [OF vocab this second(2)] show ?thesis by blast
  next
    case third
    from postprocess_probs_Inl [OF third(3)] show ?thesis .
  qed
qed

text \<open>
  A three-word vocabulary on the master process: indices 0, 1 and 2 are looked up, and 3, 5
  and 7 are beyond the vocabulary. Every entry of \<open>predictions\<close> is consumed.
\<close>

theorem postprocess_predictions_decodes_witness:
  "[''word_idx2str'' \<mapsto> [''a'', ''b'', ''c'']] (level_idx2str ''word'') = Some [''a'', ''b'', ''c'']
   \<and> list_all (list_all (\<lambda>token. 0 \<le> token)) [[0, 2, 3], [1, 5 :: int]]
   \<and> list_all (\<lambda>token. 0 \<le> token) [1, 7 :: int]
   \<and> postprocess_predictions quiet_externals ''word'' ''utterance''
       \<lparr> PREDICTIONS = Some [[0, 2, 3], [1, 5]], LAST_PREDICTIONS = Some [1, 7],
         PROBABILITIES = Some [1 / 2, 1 / 2], LENGTHS = Some [3, 2 :: nat] \<rparr>
       [''word_idx2str'' \<mapsto> [''a'', ''b'', ''c'']] ''results'' False
     = Inr (\<lparr> post_PREDICTIONS = Some (Decoded [[''a'', ''c'', ''<UNK>''], [''b'', ''<UNK>'']]),
              post_LAST_PREDICTIONS = Some (Decoded [''b'', ''<UNK>'']),
              post_PROBABILITY = Some (1 / 4) \<rparr>,
            \<lparr> PREDICTIONS = None, LAST_PREDICTIONS = None, PROBABILITIES = None,
              LENGTHS = None \<rparr>)
   \<and> token_to_str (UNKNOWN_SYMBOL quiet_externals) [''a'', ''b'', ''c''] 2 = Inr ''c''
   \<and> token_to_str (UNKNOWN_SYMBOL quiet_externals) [''a'', ''b'', ''c''] 3 = Inr ''<UNK>''"
proof -
  let ?predictions = "\<lparr> PREDICTIONS = Some [[0, 2, 3], [1, 5]], LAST_PREDICTIONS = Some [1, 7],
         PROBABILITIES = Some [1 / 2, 1 / 2 :: real], LENGTHS = Some [3, 2 :: nat] \<rparr>"
  let ?metadata = "[''word_idx2str'' \<mapsto> [''a'', ''b'', ''c'']]"
  have v: "?metadata (level_idx2str ''word'') = Some [''a'', ''b'', ''c'']"
    by (simp add: level_idx2str_def)
  have p: "\<forall>pred \<in> set (case PREDICTIONS ?predictions of None \<Rightarrow> [] | Some ps \<Rightarrow> ps).
             \<forall>token \<in> set pred. 0 \<le> token"
    by simp
  have l: "\<forall>token \<in> set (case LAST_PREDICTIONS ?predictions of None \<Rightarrow> [] | Some ls \<Rightarrow> ls).
             0 \<le> token"
    by simp
  have run: "postprocess_predictions quiet_externals ''word'' ''utterance'' ?predictions
       ?metadata ''results'' False
     = Inr (\<lparr> post_PREDICTIONS = Some (Decoded [[''a'', ''c'', ''<UNK>''], [''b'', ''<UNK>'']]),
              post_LAST_PREDICTIONS = Some (Decoded [''b'', ''<UNK>'']),
              post_PROBABILITY = Some (1 / 4) \<rparr>,
            \<lparr> PREDICTIONS = None, LAST_PREDICTIONS = None, PROBABILITIES = None,
              LENGTHS = None \<rparr>)"
    by (simp add: postprocess_predictions_def postprocess_preds_def postprocess_last_preds_def
        postprocess_probs_def skip_save_def save_unprocessed_def quiet_externals_def
        level_idx2str_def bind_def token_to_str_def py_index_def)
  note decodes = postprocess_predictions_decodes
    [where metadata = ?metadata and level = "''word''" and vocab = "[''a'', ''b'', ''c'']"
       and predictions = ?predictions and ext = quiet_externals]
  from decodes [OF v p l]
  have "\<forall>token. 0 \<le> token \<longrightarrow>
      token_to_str (UNKNOWN_SYMBOL quiet_externals) [''a'', ''b'', ''c''] token =
        Inr (if token < int (length [''a'', ''b'', ''c'']) then [''a'', ''b'', ''c''] ! nat token
             else UNKNOWN_SYMBOL quiet_externals)
      \<and> (if token < int (length [''a'', ''b'', ''c'']) then [''a'', ''b'', ''c''] ! nat token
          else UNKNOWN_SYMBOL quiet_externals)
           \<in> insert (UNKNOWN_SYMBOL quiet_externals) (set [''a'', ''b'', ''c''])"
    by (rule conjunct1)
  then have t: "token_to_str (UNKNOWN_SYMBOL quiet_externals) [''a'', ''b'', ''c''] 2 = Inr ''c''"
    "token_to_str (UNKNOWN_SYMBOL quiet_externals) [''a'', ''b'', ''c''] 3 = Inr ''<UNK>''"
    by (simp_all add: quiet_externals_def)
  from v run t show ?thesis by simp
qed

section \<open>Properties of the search strategy\<close>

subsection \<open>Auxiliary facts\<close>

lemma length_cartesian_product:
  "length (cartesian_product xss) = prod_list (map length xss)"
proof (induction xss)
  case Nil
  show ?case by simp
next
  case (Cons xs xss)
  have "length (concat (map (\<lambda>x. map (\<lambda>c. x # c) (cartesian_product xss)) xs))
      = length xs * length (cartesian_product xss)"
    by (induction xs) simp_all
  with Cons show ?case by simp
qed

lemma cartesian_product_member_length:
  "c \<in> set (cartesian_product xss) \<Longrightarrow> length c = length xss"
  by (induction xss arbitrary: c) auto

lemma traverse_keys:
  assumes "traverse (\<lambda>(name, v). bind (h v) (\<lambda>w. Inr (name, w))) xs = Inr ys"
  shows "map fst ys = map fst xs"
  using assms
proof (induction xs arbitrary: ys)
  case Nil
  then show ?case by simp
next
  case (Cons x xs)
  then show ?case
    by (cases x) (auto simp: bind_def split: sum.splits)
qed

lemma parse_parameters_keys:
  "parse_parameters ps = Inr specs \<Longrightarrow> map fst specs = map fst ps"
  unfolding parse_parameters_def by (rule traverse_keys)

lemma GridStrategy_Inr:
  assumes "GridStrategy fd g ps = Inr s"
  shows "map fst (search_space s) = map fst ps"
    and "samples s = cartesian_product (map snd (search_space s))"
    and "cursor s = 0"
proof -
  from assms obtain specs space where
    specs: "parse_parameters ps = Inr specs" and
    space: "traverse (\<lambda>(name, spec).
             bind (SearchSpaceBuilder fd spec) (\<lambda>candidates.
             Inr (name, candidates))) specs = Inr space" and
    s: "s = \<lparr> grid_goal = g, search_space = space,
           samples = cartesian_product (map snd space), cursor = 0 \<rparr>"
    unfolding GridStrategy_def by (auto simp: bind_Inr_iff)
  from traverse_keys [OF space] parse_parameters_keys [OF specs] s
  show "map fst (search_space s) = map fst ps" by simp
  from s show "samples s = cartesian_product (map snd (search_space s))" by simp
  from s show "cursor s = 0" by simp
qed

lemma grid_sample_constructed:
  assumes "GridStrategy fd g ps = Inr s"
  shows "grid_sample s =
     (if 0 < length (samples s)
      then Inr (zip (map fst (search_space s)) (samples s ! 0), s\<lparr>cursor := 1\<rparr>)
      else Inl ExhaustedError)"
  using GridStrategy_Inr(3) [OF assms] by (simp add: grid_sample_def)

lemma grid_sample_names:
  assumes "GridStrategy fd g ps = Inr s" and "0 < length (samples s)"
  shows "map fst (zip (map fst (search_space s)) (samples s ! 0)) = map fst (search_space s)"
proof -
  from assms(2) have "samples s ! 0 \<in> set (samples s)" by (rule nth_mem)
  with GridStrategy_Inr(2) [OF assms(1)]
  have "samples s ! 0 \<in> set (cartesian_product (map snd (search_space s)))" by simp
  then have "length (samples s ! 0) = length (map snd (search_space s))"
    by (rule cartesian_product_member_length)
  then show ?thesis by simp
qed

lemma upt_4: "[0..<4] = [0, 1, 2, 3]"
  by (simp add: upt_rec)

lemma upt_3: "[0..<3] = [0, 1, 2]"
  by (simp add: upt_rec)

lemma upt_2: "[0..<2] = [0, 1]"
  by (simp add: upt_rec)

lemma linspace_test_2: "linspace 0.001 0.1 4 = [0.001, 0.034, 0.067, 0.1]"
  by (simp add: linspace_def upt_4)

lemma round_half_even_of_int: "round_half_even (of_int k) = k"
  by (simp add: round_half_even_def)

lemma logspace_powr:
  assumes "0 < lo" "0 < hi" "n \<noteq> 1"
  shows "logspace lo hi n = map (\<lambda>i. lo * (hi / lo) powr (real i / real (n - 1))) [0..<n]"
proof -
  have "exp (ln lo + real i * (ln hi - ln lo) / real (n - 1))
      = lo * (hi / lo) powr (real i / real (n - 1))" for i
  proof -
    have "exp (ln lo + real i * (ln hi - ln lo) / real (n - 1))
        = exp (ln lo) * exp (real i / real (n - 1) * ln (hi / lo))"
      using assms by (simp add: exp_add ln_divide_pos)
    also have "\<dots> = lo * (hi / lo) powr (real i / real (n - 1))"
      using assms by (simp add: powr_def)
    finally show ?thesis .
  qed
  then show ?thesis
    unfolding logspace_def linspace_def
    by (simp only: assms(3) if_False list.map_comp comp_def)
qed

lemma powr_1000: "(1000::real) powr (real i / 3) = 10 ^ i"
proof -
  have "(1000::real) = 10 powr 3" by simp
  then have "(1000::real) powr (real i / 3) = (10 powr 3) powr (real i / 3)" by simp
  also have "\<dots> = 10 powr (real i)" by (simp only: powr_powr) simp
  also have "\<dots> = 10 ^ i" by (simp add: powr_realpow)
  finally show ?thesis .
qed

lemma logspace_test_1: "logspace 0.0001 0.1 4 = [0.0001, 0.001, 0.01, 0.1]"
proof -
  have "logspace 0.0001 0.1 4 = map (\<lambda>i. 0.0001 * (0.1 / 0.0001) powr (real i / real (4 - 1))) [0..<4]"
    by (rule logspace_powr) simp_all
  also have "\<dots> = map (\<lambda>i. 0.0001 * 10 ^ i) [0..<4]"
    using powr_1000 by simp
  also have "\<dots> = [0.0001, 0.001, 0.01, 0.1]"
    by (simp add: upt_4)
  finally show ?thesis .
qed

lemma int_candidates_test_1: "int_candidates Linear 0 4 2 = Inr [VInt 0, VInt 4]"
proof -
  have "linspace 0 4 2 = [of_int 0, of_int 4]" by (simp add: linspace_def upt_2)
  then show ?thesis
    by (simp add: int_candidates_def spaced_def bind_def round_half_even_of_int
        del: of_int_0 of_int_numeral)
qed

lemma int_candidates_test_2: "int_candidates Linear 2 6 3 = Inr [VInt 2, VInt 4, VInt 6]"
proof -
  have "linspace 2 6 3 = [of_int 2, of_int 4, of_int 6]" by (simp add: linspace_def upt_3)
  then show ?thesis
    by (simp add: int_candidates_def spaced_def bind_def round_half_even_of_int
        del: of_int_0 of_int_numeral)
qed

subsection \<open>The test's fixtures on the model\<close>


lemma int_candidates_Linear:
  "int_candidates Linear lo hi n =
     Inr (map VInt (remdups_adj (map round_half_even (linspace lo hi n))))"
  by (simp add: int_candidates_def spaced_def bind_def)

lemma parse_test_1:
  "parse_parameters (params test_1) =
     Inr [(''training.learning_rate'', FloatSpec 0.0001 0.1 (Some 4) Log),
          (''combiner.num_fc_layers'', IntSpec 0 4 None Linear),
          (''utterance.cell_type'', CategorySpec [VStr ''rnn'', VStr ''gru'', VStr ''lstm''])]"
  by (simp add: parse_parameters_def test_1_def parse_spec_def bind_def)

lemma parse_test_2:
  "parse_parameters (params test_2) =
     Inr [(''training.learning_rate'', FloatSpec 0.001 0.1 (Some 4) Linear),
          (''combiner.num_fc_layers'', IntSpec 2 6 (Some 3) Linear)]"
  by (simp add: parse_parameters_def test_2_def parse_spec_def bind_def)

text \<open>
  The strategy built for \<open>test_1\<close>, whatever the default number of steps: only the
  candidates of the int parameter depend on it.
\<close>

lemma GridStrategy_test_1_any:
  assumes "int_candidates Linear 0 4 (d (IntSpec 0 4 None Linear)) = Inr cs"
  shows "GridStrategy d Minimize (params test_1) =
     Inr \<lparr> grid_goal = Minimize,
           search_space =
             [(''training.learning_rate'', [VFloat 0.0001, VFloat 0.001, VFloat 0.01, VFloat 0.1]),
              (''combiner.num_fc_layers'', cs),
              (''utterance.cell_type'', [VStr ''rnn'', VStr ''gru'', VStr ''lstm''])],
           samples = cartesian_product
             [[VFloat 0.0001, VFloat 0.001, VFloat 0.01, VFloat 0.1], cs,
              [VStr ''rnn'', VStr ''gru'', VStr ''lstm'']],
           cursor = 0 \<rparr>"
proof -
  have "SearchSpaceBuilder d (FloatSpec 0.0001 0.1 (Some 4) Log)
      = Inr [VFloat 0.0001, VFloat 0.001, VFloat 0.01, VFloat 0.1]"
    by (simp add: spaced_def bind_def logspace_test_1 [simplified])
  moreover have "SearchSpaceBuilder d (IntSpec 0 4 None Linear) = Inr cs"
    using assms by simp
  moreover have "SearchSpaceBuilder d (CategorySpec [VStr ''rnn'', VStr ''gru'', VStr ''lstm''])
      = Inr [VStr ''rnn'', VStr ''gru'', VStr ''lstm'']"
    by simp
  ultimately show ?thesis
    unfolding GridStrategy_def parse_test_1
    by (simp add: bind_def del: SearchSpaceBuilder.simps)
qed

lemma GridStrategy_test_2:
  "GridStrategy d Maximize (params test_2) =
     Inr \<lparr> grid_goal = Maximize, search_space = expected_search_space test_2,
           samples = cartesian_product (map snd (expected_search_space test_2)), cursor = 0 \<rparr>"
proof -
  have "expected_search_space test_2 =
         [(''training.learning_rate'', [VFloat 0.001, VFloat 0.034, VFloat 0.067, VFloat 0.1]),
          (''combiner.num_fc_layers'', [VInt 2, VInt 4, VInt 6])]"
    by (simp add: test_2_def)
  then show ?thesis
    by (simp add: GridStrategy_def parse_test_2 bind_def spaced_def linspace_test_2 [simplified]
        int_candidates_test_2)
qed

lemma samples_test_2: "length (cartesian_product (map snd (expected_search_space test_2))) = 12"
  by (simp add: length_cartesian_product test_2_def)

text \<open>
  \<open>test_grid_strategy\<close> on a strategy that was constructed: the first call of \<open>sample()\<close>
  succeeds when there is a sample, its keys are those of the search space, and the two
  other assertions are left.
\<close>

lemma test_grid_strategy_constructed:
  assumes c: "GridStrategy d (goal t) (params t) =
                Inr \<lparr> grid_goal = g, search_space = ss, samples = sm, cursor = k \<rparr>"
  shows "test_grid_strategy d t \<longleftrightarrow>
           0 < length sm \<and> set ss = set (expected_search_space t)
           \<and> length sm = expected_len_grids t"
proof (cases "0 < length sm")
  case False
  with grid_sample_constructed [OF c]
  have "grid_sample \<lparr> grid_goal = g, search_space = ss, samples = sm, cursor = k \<rparr>
          = Inl ExhaustedError"
    by simp
  with False show ?thesis by (simp add: test_grid_strategy_def c)
next
  case True
  let ?s = "\<lparr> grid_goal = g, search_space = ss, samples = sm, cursor = k \<rparr>"
  from True have n: "0 < length (samples ?s)" by simp
  from grid_sample_constructed [OF c] True
  have gs: "grid_sample ?s = Inr (zip (map fst ss) (sm ! 0), ?s\<lparr>cursor := 1\<rparr>)"
    by simp
  from grid_sample_names [OF c n]
  have "map fst (zip (map fst ss) (sm ! 0)) = map fst ss" by simp
  then have keys: "set (map fst (zip (map fst ss) (sm ! 0))) = set (map fst ss)"
    by (simp only:)
  from True show ?thesis
    by (simp add: test_grid_strategy_def c gs keys del: set_map)
qed

text \<open>
  \<open>test_grid_strategy\<close> passes on \<open>test_1\<close> exactly when the int parameter without
  \<open>steps\<close> gets the two bounds as its candidates, and it passes on \<open>test_2\<close>.
\<close>

lemma test_grid_strategy_test_1_iff:
  "test_grid_strategy d test_1 \<longleftrightarrow>
     int_candidates Linear 0 4 (d (IntSpec 0 4 None Linear)) = Inr [VInt 0, VInt 4]"
proof -
  obtain cs where cs: "int_candidates Linear 0 4 (d (IntSpec 0 4 None Linear)) = Inr cs"
    by (simp add: int_candidates_Linear)
  have g: "goal test_1 = Minimize" by (simp add: test_1_def)
  have e: "expected_search_space test_1 =
         [(''training.learning_rate'', [VFloat 0.0001, VFloat 0.001, VFloat 0.01, VFloat 0.1]),
          (''combiner.num_fc_layers'', [VInt 0, VInt 4]),
          (''utterance.cell_type'', [VStr ''rnn'', VStr ''gru'', VStr ''lstm''])]"
    "expected_len_grids test_1 = 24"
    by (simp_all add: test_1_def)
  have s: "GridStrategy d (goal test_1) (params test_1) =
     Inr \<lparr> grid_goal = Minimize,
           search_space =
             [(''training.learning_rate'', [VFloat 0.0001, VFloat 0.001, VFloat 0.01, VFloat 0.1]),
              (''combiner.num_fc_layers'', cs),
              (''utterance.cell_type'', [VStr ''rnn'', VStr ''gru'', VStr ''lstm''])],
           samples = cartesian_product
             [[VFloat 0.0001, VFloat 0.001, VFloat 0.01, VFloat 0.1], cs,
              [VStr ''rnn'', VStr ''gru'', VStr ''lstm'']],
           cursor = 0 \<rparr>"
    unfolding g by (rule GridStrategy_test_1_any [where d = d, OF cs])
  note iff = test_grid_strategy_constructed [OF s]
  show ?thesis
  proof
    assume "test_grid_strategy d test_1"
    from iffD1 [OF iff this] have "set [(''training.learning_rate'',
                       [VFloat 0.0001, VFloat 0.001, VFloat 0.01, VFloat 0.1]),
                     (''combiner.num_fc_layers'', cs),
                     (''utterance.cell_type'', [VStr ''rnn'', VStr ''gru'', VStr ''lstm''])]
             = set (expected_search_space test_1)"
      by (elim conjE)
    moreover have "(''combiner.num_fc_layers'', cs)
        \<in> set [(''training.learning_rate'',
                       [VFloat 0.0001, VFloat 0.001, VFloat 0.01, VFloat 0.1]),
                     (''combiner.num_fc_layers'', cs),
                     (''utterance.cell_type'', [VStr ''rnn'', VStr ''gru'', VStr ''lstm''])]"
      by simp
    ultimately have "(''combiner.num_fc_layers'', cs) \<in> set (expected_search_space test_1)"
      by (simp only:)
    then have "cs = [VInt 0, VInt 4]"
      by (simp add: e)
    with cs show "int_candidates Linear 0 4 (d (IntSpec 0 4 None Linear)) = Inr [VInt 0, VInt 4]"
      by simp
  next
    assume "int_candidates Linear 0 4 (d (IntSpec 0 4 None Linear)) = Inr [VInt 0, VInt 4]"
    with cs have "cs = [VInt 0, VInt 4]" by simp
    with iff show "test_grid_strategy d test_1"
      by (simp add: e length_cartesian_product del: cartesian_product.simps)
  qed
qed

lemma test_grid_strategy_test_1: "test_grid_strategy two_steps test_1"
  by (simp add: test_grid_strategy_test_1_iff two_steps_def int_candidates_test_1)

lemma test_grid_strategy_test_2: "test_grid_strategy d test_2"
proof -
  have g: "goal test_2 = Maximize" by (simp add: test_2_def)
  have e: "expected_len_grids test_2 = 12" by (simp add: test_2_def)
  have s: "GridStrategy d (goal test_2) (params test_2) =
     Inr \<lparr> grid_goal = Maximize, search_space = expected_search_space test_2,
           samples = cartesian_product (map snd (expected_search_space test_2)), cursor = 0 \<rparr>"
    unfolding g by (rule GridStrategy_test_2)
  show ?thesis
    unfolding test_grid_strategy_constructed [OF s]
    by (simp add: e samples_test_2)
qed

subsection \<open>An int parameter without \<open>steps\<close>\<close>




end
